theory Spec2Isabelle
  imports Complex_Main
begin

section \<open>Python values\<close>

text \<open>
  A Python \<open>str\<close> is a sequence of Unicode code points, so a string is a list of
  natural numbers.  ASCII literals of the source are written through \<open>asc\<close>; the
  Cyrillic literals are spelled out as code points.
\<close>

type_synonym ustring = "nat list"

definition asc :: "string \<Rightarrow> ustring" where
  "asc s = map of_char s"

text \<open>
  The values \<open>json.loads\<close> produces and \<open>json.dumps\<close> consumes.  Python's \<open>None\<close> is
  \<open>JNull\<close>.  The type \<open>'f\<close> stands for Python's \<open>float\<close>; its operations belong to the
  interpreter and are taken from the runtime record below.  A \<open>dict\<close> keeps its
  insertion order, hence the association list.
\<close>

datatype 'f json =
    JNull
  | JBool bool
  | JInt int
  | JFloat 'f
  | JStr ustring
  | JArr "'f json list"
  | JObj "(ustring \<times> 'f json) list"

datatype exc_class =
    Exception
  | JSONDecodeError
  | UnicodeDecodeError
  | BrokenPipeError
  | TypeError
  | KeyError
  | AttributeError
  | ValueError
  | IndexError
  | OtherClass ustring

text \<open>An exception that derives from \<open>Exception\<close>: its class and \<open>str(e)\<close>.\<close>

datatype py_exc = Raised exc_class ustring

fun exc_str :: "py_exc \<Rightarrow> ustring" where
  "exc_str (Raised c m) = m"

text \<open>
  The operation at which the library raises; the interpreter chooses the message.
\<close>

datatype lib_op =
    Contains
  | Subscript
  | MissingKey
  | GetAttr ustring
  | ToFloat
  | LastOf
  | Arith
  | Hash
  | EmptySequence

text \<open>
  \<open>eval\<close> on a string returns a value, of which the source only takes \<open>str\<close>, or
  raises.  \<open>SystemExit\<close>, \<open>KeyboardInterrupt\<close> and \<open>GeneratorExit\<close> derive from
  \<open>BaseException\<close> and not from \<open>Exception\<close>; \<open>EvalExits\<close> names such a class.
\<close>

datatype eval_result =
    EvalValue ustring
  | EvalRaises py_exc
  | EvalExits ustring

text \<open>
  What the interpreter and the standard library contribute.  These are builtins, not
  code of the repository, and they depend on the Unicode tables, on IEEE arithmetic, on
  hashing or on the interpreter's version; every function below takes them as the
  parameter \<open>rt\<close>.  \<open>None\<close> from \<open>str_to_int\<close> and \<open>str_to_float\<close> is \<open>ValueError\<close>;
  \<open>float_str\<close> is \<open>str\<close> of a float and \<open>float_json\<close> its text in \<open>json.dumps\<close>;
  \<open>py_add\<close>, \<open>py_truediv\<close>, \<open>py_gt\<close> and \<open>py_lt\<close> are \<open>+\<close>, \<open>/\<close>, \<open>>\<close> and \<open><\<close> on decoded
  values; \<open>set_to_list\<close> is \<open>list(set(xs))\<close> for hashable elements, in the order the
  interpreter chooses.
\<close>

record 'f runtime =
  str_lower :: "ustring \<Rightarrow> ustring"
  str_to_int :: "ustring \<Rightarrow> int option"
  str_to_float :: "ustring \<Rightarrow> 'f option"
  float_str :: "'f \<Rightarrow> ustring"
  float_json :: "'f \<Rightarrow> ustring"
  float_of_int :: "int \<Rightarrow> 'f"
  float_div :: "'f \<Rightarrow> 'f \<Rightarrow> 'f"
  float_mul :: "'f \<Rightarrow> 'f \<Rightarrow> 'f"
  float_eq_int :: "'f \<Rightarrow> int \<Rightarrow> bool"
  float_nonzero :: "'f \<Rightarrow> bool"
  py_eval :: "ustring \<Rightarrow> eval_result"
  value_str :: "'f json \<Rightarrow> ustring"
  lib_text :: "lib_op \<Rightarrow> 'f json \<Rightarrow> ustring"
  py_add :: "'f json \<Rightarrow> 'f json \<Rightarrow> py_exc + 'f json"
  py_truediv :: "'f json \<Rightarrow> 'f json \<Rightarrow> py_exc + 'f json"
  py_gt :: "'f json \<Rightarrow> 'f json \<Rightarrow> py_exc + bool"
  py_lt :: "'f json \<Rightarrow> 'f json \<Rightarrow> py_exc + bool"
  set_to_list :: "'f json list \<Rightarrow> 'f json list"

section \<open>String operations of the source\<close>

fun starts_with :: "ustring \<Rightarrow> ustring \<Rightarrow> bool" where
  "starts_with s [] = True"
| "starts_with [] (p # ps) = False"
| "starts_with (c # cs) (p # ps) = (c = p \<and> starts_with cs ps)"

text \<open>\<open>sub in s\<close> on strings.\<close>

fun contains :: "ustring \<Rightarrow> ustring \<Rightarrow> bool" where
  "contains sub [] = (sub = [])"
| "contains sub (c # cs) = (starts_with (c # cs) sub \<or> contains sub cs)"

text \<open>The code points for which \<open>str.isspace\<close> holds; \<open>split()\<close> and \<open>strip()\<close> use them.\<close>

definition is_space :: "nat \<Rightarrow> bool" where
  "is_space c =
     ((9 \<le> c \<and> c \<le> 13) \<or> (28 \<le> c \<and> c \<le> 32) \<or> c = 133 \<or> c = 160 \<or> c = 5760 \<or>
      (8192 \<le> c \<and> c \<le> 8202) \<or> c = 8232 \<or> c = 8233 \<or> c = 8239 \<or> c = 8287 \<or>
      c = 12288)"

definition py_strip :: "ustring \<Rightarrow> ustring" where
  "py_strip s = rev (dropWhile is_space (rev (dropWhile is_space s)))"

text \<open>\<open>s.split()\<close>: the maximal runs of non-space code points; \<open>cur\<close> is the run being read, reversed.\<close>

fun split_ws :: "ustring \<Rightarrow> ustring \<Rightarrow> ustring list" where
  "split_ws cur [] = (if cur = [] then [] else [rev cur])"
| "split_ws cur (c # cs) =
     (if is_space c then (if cur = [] then split_ws [] cs else rev cur # split_ws [] cs)
      else split_ws (c # cur) cs)"

definition py_split :: "ustring \<Rightarrow> ustring list" where
  "py_split s = split_ws [] s"

text \<open>
  \<open>s.split(sep)\<close> for a non-empty separator: \<open>skip\<close> counts the code points of a
  separator just found that are still to be passed over.
\<close>

fun split_at :: "ustring \<Rightarrow> nat \<Rightarrow> ustring \<Rightarrow> ustring \<Rightarrow> ustring list" where
  "split_at sep skip cur [] = [rev cur]"
| "split_at sep (Suc k) cur (c # cs) = split_at sep k cur cs"
| "split_at sep 0 cur (c # cs) =
     (if starts_with (c # cs) sep then rev cur # split_at sep (length sep - 1) [] cs
      else split_at sep 0 (c # cur) cs)"

definition split_on :: "ustring \<Rightarrow> ustring \<Rightarrow> ustring list" where
  "split_on sep s = split_at sep 0 [] s"

fun py_join :: "ustring \<Rightarrow> ustring list \<Rightarrow> ustring" where
  "py_join sep [] = []"
| "py_join sep [x] = x"
| "py_join sep (x # y # zs) = x @ sep @ py_join sep (y # zs)"

fun digit_chars :: "nat \<Rightarrow> ustring" where
  "digit_chars n = (if n < 10 then [48 + n] else digit_chars (n div 10) @ [48 + n mod 10])"

text \<open>\<open>str(i)\<close> of an integer.\<close>

definition show_int :: "int \<Rightarrow> ustring" where
  "show_int i = (if i < 0 then 45 # digit_chars (nat (- i)) else digit_chars (nat i))"

section \<open>json.dumps\<close>

definition hex_digit :: "nat \<Rightarrow> nat" where
  "hex_digit d = (if d < 10 then 48 + d else 87 + d)"

definition u_escape :: "nat \<Rightarrow> ustring" where
  "u_escape n =
     [92, 117, hex_digit (n div 4096 mod 16), hex_digit (n div 256 mod 16),
      hex_digit (n div 16 mod 16), hex_digit (n mod 16)]"

definition escape_char :: "bool \<Rightarrow> nat \<Rightarrow> ustring" where
  "escape_char ensure_ascii c =
     (if c = 34 then [92, 34]
      else if c = 92 then [92, 92]
      else if c = 10 then [92, 110]
      else if c = 13 then [92, 114]
      else if c = 9 then [92, 116]
      else if c = 8 then [92, 98]
      else if c = 12 then [92, 102]
      else if c < 32 then u_escape c
      else if ensure_ascii \<and> 126 < c then
        (if c < 65536 then u_escape c
         else u_escape (55296 + (c - 65536) div 1024) @
              u_escape (56320 + (c - 65536) mod 1024))
      else [c])"

definition dumps_str :: "bool \<Rightarrow> ustring \<Rightarrow> ustring" where
  "dumps_str ensure_ascii s = [34] @ concat (map (escape_char ensure_ascii) s) @ [34]"

text \<open>
  \<open>json.dumps(v, ensure_ascii=...)\<close> with the default separators and no indentation.
  The text of a float is the interpreter's.
\<close>

fun json_dumps :: "'f runtime \<Rightarrow> bool \<Rightarrow> 'f json \<Rightarrow> ustring" where
  "json_dumps rt ea JNull = asc ''null''"
| "json_dumps rt ea (JBool b) = (if b then asc ''true'' else asc ''false'')"
| "json_dumps rt ea (JInt i) = show_int i"
| "json_dumps rt ea (JFloat x) = float_json rt x"
| "json_dumps rt ea (JStr s) = dumps_str ea s"
| "json_dumps rt ea (JArr xs) =
     asc ''['' @ py_join (asc '', '') (map (json_dumps rt ea) xs) @ asc '']''"
| "json_dumps rt ea (JObj kvs) =
     asc ''{'' @
     py_join (asc '', '')
       (map (\<lambda>kv. dumps_str ea (fst kv) @ asc '': '' @ json_dumps rt ea (snd kv)) kvs) @
     asc ''}''"

section \<open>MCP client\<close>

text \<open>
  What one call meets on the pipe to the server process: the write fails, the line read
  is not UTF-8, the stripped line is empty (also at end of file), \<open>json.loads\<close> rejects
  it, or \<open>json.loads\<close> returns a value.  The texts are the \<open>str(e)\<close> of the library's
  exception.
\<close>

datatype 'f wire =
    WriteFails ustring
  | BadUtf8 ustring
  | NoLine
  | Garbage ustring
  | Parsed "'f json"

text \<open>
  \<open>written\<close> holds the requests handed to \<open>process.stdin.write\<close>, oldest first, each
  standing for the line \<open>json.dumps(request) + "\n"\<close>; \<open>peer\<close> holds what the coming
  calls will meet, and an exhausted list is a closed pipe.
\<close>

record 'f mcp_client =
  request_id :: int
  written :: "'f json list"
  peer :: "'f wire list"

definition MCPClient :: "'f wire list \<Rightarrow> 'f mcp_client" where
  "MCPClient p = \<lparr>request_id = 0, written = [], peer = p\<rparr>"

text \<open>\<open>key in v\<close> and \<open>v[key]\<close> for a string key and a decoded value.\<close>

fun py_in :: "'f runtime \<Rightarrow> ustring \<Rightarrow> 'f json \<Rightarrow> py_exc + bool" where
  "py_in rt k (JObj kvs) = Inr (map_of kvs k \<noteq> None)"
| "py_in rt k (JArr xs) = Inr (List.member xs (JStr k))"
| "py_in rt k (JStr s) = Inr (contains k s)"
| "py_in rt k v = Inl (Raised TypeError (lib_text rt Contains v))"

fun py_getitem :: "'f runtime \<Rightarrow> 'f json \<Rightarrow> ustring \<Rightarrow> py_exc + 'f json" where
  "py_getitem rt (JObj kvs) k =
     (case map_of kvs k of
        None \<Rightarrow> Inl (Raised KeyError (lib_text rt MissingKey (JStr k)))
      | Some v \<Rightarrow> Inr v)"
| "py_getitem rt v k = Inl (Raised TypeError (lib_text rt Subscript v))"

definition make_request :: "int \<Rightarrow> ustring \<Rightarrow> 'f json \<Rightarrow> 'f json" where
  "make_request i tool_name args =
     JObj [(asc ''jsonrpc'', JStr (asc ''2.0'')),
           (asc ''id'', JInt i),
           (asc ''method'', JStr (asc ''tools/call'')),
           (asc ''params'', JObj [(asc ''name'', JStr tool_name),
                                  (asc ''arguments'', args)])]"

definition read_response :: "'f runtime \<Rightarrow> 'f json \<Rightarrow> py_exc + 'f json" where
  "read_response rt response =
     (case py_in rt (asc ''result'') response of
        Inl e \<Rightarrow> Inl e
      | Inr True \<Rightarrow> py_getitem rt response (asc ''result'')
      | Inr False \<Rightarrow>
          (case py_in rt (asc ''error'') response of
             Inl e \<Rightarrow> Inl e
           | Inr True \<Rightarrow>
               (case py_getitem rt response (asc ''error'') of
                  Inl e \<Rightarrow> Inl e
                | Inr err \<Rightarrow>
                    Inl (Raised Exception (asc ''MCP Error: '' @ value_str rt err)))
           | Inr False \<Rightarrow> Inr JNull))"

definition call_tool ::
  "'f runtime \<Rightarrow> 'f mcp_client \<Rightarrow> ustring \<Rightarrow> 'f json \<Rightarrow> (py_exc + 'f json) \<times> 'f mcp_client"
where
  "call_tool rt c tool_name args =
     (let i = request_id c + 1;
          request = make_request i tool_name args;
          event = (case peer c of [] \<Rightarrow> NoLine | e # es \<Rightarrow> e);
          c' = c\<lparr>request_id := i, written := written c @ [request], peer := tl (peer c)\<rparr>
      in case event of
           WriteFails m \<Rightarrow> (Inl (Raised BrokenPipeError m), c')
         | BadUtf8 m \<Rightarrow> (Inl (Raised UnicodeDecodeError m), c')
         | NoLine \<Rightarrow> (Inr JNull, c')
         | Garbage m \<Rightarrow> (Inl (Raised JSONDecodeError m), c')
         | Parsed response \<Rightarrow> (read_response rt response, c'))"

text \<open>A client's calls one after another, whatever each of them returns or raises.\<close>

fun call_all ::
  "'f runtime \<Rightarrow> 'f mcp_client \<Rightarrow> (ustring \<times> 'f json) list \<Rightarrow> 'f mcp_client" where
  "call_all rt c [] = c"
| "call_all rt c ((tool_name, args) # rest) =
     call_all rt (snd (call_tool rt c tool_name args)) rest"

text \<open>The \<open>id\<close> member of a request or response object.\<close>

fun ident :: "'f json \<Rightarrow> int option" where
  "ident (JObj kvs) = (case map_of kvs (asc ''id'') of Some (JInt i) \<Rightarrow> Some i | _ \<Rightarrow> None)"
| "ident v = None"

section \<open>The routing phrases\<close>

text \<open>
  The Cyrillic literals of \<open>agent.py\<close>, by code point; the names transliterate them.
\<close>

definition ru_spisok :: ustring where
  "ru_spisok = [1089, 1087, 1080, 1089, 1086, 1082]"

definition ru_vse_produkty :: ustring where
  "ru_vse_produkty = [1074, 1089, 1077, 32, 1087, 1088, 1086, 1076, 1091, 1082, 1090, 1099]"

definition ru_kategoriya :: ustring where
  "ru_kategoriya = [1082, 1072, 1090, 1077, 1075, 1086, 1088, 1080, 1103]"

definition ru_elektronika :: ustring where
  "ru_elektronika = [1101, 1083, 1077, 1082, 1090, 1088, 1086, 1085, 1080, 1082, 1072]"

text \<open>The same word with a capital first letter: the category the source passes on.\<close>

definition ru_Elektronika :: ustring where
  "ru_Elektronika = [1069, 1083, 1077, 1082, 1090, 1088, 1086, 1085, 1080, 1082, 1072]"

definition ru_statistika :: ustring where
  "ru_statistika = [1089, 1090, 1072, 1090, 1080, 1089, 1090, 1080, 1082, 1072]"

definition ru_srednyaya_tsena :: ustring where
  "ru_srednyaya_tsena = [1089, 1088, 1077, 1076, 1085, 1103, 1103, 32, 1094, 1077, 1085, 1072]"

definition ru_tovar :: ustring where
  "ru_tovar = [1090, 1086, 1074, 1072, 1088]"

definition ru_najti :: ustring where
  "ru_najti = [1085, 1072, 1081, 1090, 1080]"

definition ru_nomer :: ustring where
  "ru_nomer = [1085, 1086, 1084, 1077, 1088]"

definition ru_dobav :: ustring where
  "ru_dobav = [1076, 1086, 1073, 1072, 1074, 1100]"

definition ru_novyj :: ustring where
  "ru_novyj = [1085, 1086, 1074, 1099, 1081]"

definition ru_poschitaj :: ustring where
  "ru_poschitaj = [1087, 1086, 1089, 1095, 1080, 1090, 1072, 1081]"

definition ru_skidka :: ustring where
  "ru_skidka = [1089, 1082, 1080, 1076, 1082, 1072]"

definition percent_sign :: ustring where
  "percent_sign = [37]"

section \<open>The calculator tool\<close>

text \<open>
  A call either returns text or lets an exception outside \<open>Exception\<close> pass, which
  \<open>except Exception\<close> does not catch.
\<close>

datatype text_result = Text ustring | Propagates ustring

text \<open>
  The branch for percentages: \<open>None\<close> when control leaves the \<open>if\<close> and reaches \<open>eval\<close>,
  otherwise what the function returns from inside it, the handler's text included.
\<close>

definition percent_branch :: "'f runtime \<Rightarrow> ustring \<Rightarrow> ustring option" where
  "percent_branch rt expression =
     (if contains percent_sign expression then
        (case split_on (asc '' of '') expression of
           [p0, p1] \<Rightarrow>
             (let percent_str = py_strip (filter (\<lambda>c. c \<noteq> 37) (py_strip p0));
                  amount_str = py_strip p1
              in case str_to_float rt percent_str of
                   None \<Rightarrow>
                     Some (asc ''Error calculating: '' @ lib_text rt ToFloat (JStr percent_str))
                 | Some percent \<Rightarrow>
                     (case str_to_float rt amount_str of
                        None \<Rightarrow>
                          Some (asc ''Error calculating: '' @
                                lib_text rt ToFloat (JStr amount_str))
                      | Some amount \<Rightarrow>
                          (let result =
                                 float_mul rt (float_div rt percent (float_of_int rt 100)) amount
                           in Some (float_str rt percent @ asc ''% of '' @ float_str rt amount @
                                    asc '' = '' @ float_str rt result))))
         | _ \<Rightarrow> None)
      else None)"

definition calculator :: "'f runtime \<Rightarrow> ustring \<Rightarrow> text_result" where
  "calculator rt expression =
     (case percent_branch rt expression of
        Some s \<Rightarrow> Text s
      | None \<Rightarrow>
          (case py_eval rt expression of
             EvalValue s \<Rightarrow> Text (expression @ asc '' = '' @ s)
           | EvalRaises e \<Rightarrow> Text (asc ''Error calculating: '' @ exc_str e)
           | EvalExits b \<Rightarrow> Propagates b))"

section \<open>MockLLM\<close>

definition tool_use :: "'f runtime \<Rightarrow> ustring \<Rightarrow> 'f json \<Rightarrow> ustring" where
  "tool_use rt says j = says @ asc '' [TOOL_USE: '' @ json_dumps rt True j @ asc '']''"

text \<open>The loop over \<open>enumerate(words)\<close>: the first marker word followed by an integer.\<close>

fun find_marked_id :: "'f runtime \<Rightarrow> ustring list \<Rightarrow> int option" where
  "find_marked_id rt (w # n # rest) =
     (if w = asc ''id'' \<or> w = ru_nomer then
        (case str_to_int rt n of
           Some k \<Rightarrow> Some k
         | None \<Rightarrow> find_marked_id rt (n # rest))
      else find_marked_id rt (n # rest))"
| "find_marked_id rt ws = None"

text \<open>\<open>s.strip().split()[-1]\<close>.\<close>

definition last_word :: "'f runtime \<Rightarrow> ustring \<Rightarrow> py_exc + ustring" where
  "last_word rt s =
     (case py_split (py_strip s) of
        [] \<Rightarrow> Inl (Raised IndexError (lib_text rt LastOf (JArr [])))
      | w # ws \<Rightarrow> Inr (last (w # ws)))"

definition generate_content :: "'f runtime \<Rightarrow> ustring \<Rightarrow> py_exc + ustring" where
  "generate_content rt last_message =
     (if contains ru_spisok last_message \<or> contains ru_vse_produkty last_message \<or>
         contains (asc ''show products'') last_message then
        Inr (tool_use rt (asc ''I'' @ [39] @ asc ''ll get all products for you.'')
               (JObj [(asc ''tool'', JStr (asc ''list_products'')), (asc ''args'', JObj [])]))
      else if contains ru_kategoriya last_message \<or> contains (asc ''category'') last_message \<or>
              contains ru_elektronika last_message then
        (let category = (if contains ru_elektronika last_message then ru_Elektronika
                         else ru_Elektronika)
         in Inr (tool_use rt (asc ''Getting products in '' @ category @ asc '' category.'')
               (JObj [(asc ''tool'', JStr (asc ''list_products'')),
                      (asc ''args'', JObj [(asc ''category'', JStr category)])])))
      else if contains ru_statistika last_message \<or> contains (asc ''statistics'') last_message \<or>
              contains ru_srednyaya_tsena last_message then
        Inr (tool_use rt (asc ''Getting product statistics.'')
               (JObj [(asc ''tool'', JStr (asc ''get_statistics''))]))
      else if contains (asc ''product id'') last_message \<or> contains ru_tovar last_message \<or>
              contains ru_najti last_message then
        (case find_marked_id rt (py_split last_message) of
           None \<Rightarrow> Inr (asc ''Please specify a product ID.'')
         | Some product_id \<Rightarrow>
             (if product_id \<noteq> 0 then
                Inr (tool_use rt
                       (asc ''Getting product with ID '' @ show_int product_id @ asc ''.'')
                       (JObj [(asc ''tool'', JStr (asc ''get_product'')),
                              (asc ''args'', JObj [(asc ''product_id'', JInt product_id)])]))
              else Inr (asc ''Please specify a product ID.'')))
      else if contains ru_dobav last_message \<or> contains (asc ''add'') last_message \<or>
              contains ru_novyj last_message then
        Inr (asc ''I'' @ [39] @
             asc ''ll help you add a new product. Please provide name, price, and category.'')
      else if contains percent_sign last_message \<or> contains ru_poschitaj last_message \<or>
              contains (asc ''calculate'') last_message \<or>
              contains (asc ''discount'') last_message then
        (if contains percent_sign last_message then
           (case split_on percent_sign last_message of
              [] \<Rightarrow> Inr (asc ''I can help calculate discounts and prices.'')
            | p0 # ps \<Rightarrow>
                (case last_word rt p0 of
                   Inl e \<Rightarrow> Inl e
                 | Inr x \<Rightarrow>
                     (case ps of
                        [] \<Rightarrow> Inl (Raised IndexError (lib_text rt LastOf (JArr [JStr p0])))
                      | p1 # ps' \<Rightarrow>
                          (case last_word rt p1 of
                             Inl e \<Rightarrow> Inl e
                           | Inr y \<Rightarrow>
                               Inr (tool_use rt (asc ''Calculating discount.'')
                                      (JObj [(asc ''tool'', JStr (asc ''calculator'')),
                                             (asc ''args'',
                                              JObj [(asc ''expression'',
                                                     JStr (x @ asc ''% of '' @ y))])]))))))
         else Inr (asc ''I can help with calculations. Please specify the expression.''))
      else
        Inr (asc ''I'' @ [39] @
             asc ''ll help you with product management. What would you like to do?''))"

text \<open>
  \<open>MockLLM._generate\<close> on the contents of the messages: it reads the last one, in lower
  case, and answers with the content of the generated message.
\<close>

definition MockLLM_generate :: "'f runtime \<Rightarrow> ustring list \<Rightarrow> py_exc + ustring" where
  "MockLLM_generate rt messages =
     (case messages of
        [] \<Rightarrow> Inl (Raised IndexError (lib_text rt LastOf (JArr [])))
      | m # ms \<Rightarrow> generate_content rt (str_lower rt (last (m # ms))))"

section \<open>Agent execution\<close>

text \<open>\<open>mcp_client.call_tool(name, args) if mcp_client else default\<close>.\<close>

definition call_or_default ::
  "'f runtime \<Rightarrow> 'f mcp_client option \<Rightarrow> ustring \<Rightarrow> 'f json \<Rightarrow> 'f json \<Rightarrow>
   (py_exc + 'f json) \<times> 'f mcp_client option"
where
  "call_or_default rt mcp_client tool_name args dflt =
     (case mcp_client of
        None \<Rightarrow> (Inr dflt, None)
      | Some c \<Rightarrow> (case call_tool rt c tool_name args of (r, c') \<Rightarrow> (r, Some c')))"

text \<open>
  The loop of the product branch.  The bare \<open>except: pass\<close> swallows a failing \<open>int\<close> and
  a failing call alike, and the loop goes on with the next word.
\<close>

fun find_product ::
  "'f runtime \<Rightarrow> 'f mcp_client option \<Rightarrow> ustring list \<Rightarrow> ustring list \<times> 'f mcp_client option"
where
  "find_product rt mcp_client (w # n # rest) =
     (if w = asc ''id'' then
        (case str_to_int rt n of
           None \<Rightarrow> find_product rt mcp_client (n # rest)
         | Some product_id \<Rightarrow>
             (case call_or_default rt mcp_client (asc ''get_product'')
                     (JObj [(asc ''product_id'', JInt product_id)]) (JObj []) of
                (Inl e, mcp') \<Rightarrow> find_product rt mcp' (n # rest)
              | (Inr result, mcp') \<Rightarrow>
                  ([asc ''Product '' @ show_int product_id @ asc '': '' @
                    json_dumps rt False result], mcp')))
      else find_product rt mcp_client (n # rest))"
| "find_product rt mcp_client ws = ([], mcp_client)"

text \<open>The handler \<open>except Exception as e\<close> around the branches.\<close>

definition part_or_error ::
  "'f runtime \<Rightarrow> ustring \<Rightarrow> (py_exc + 'f json) \<times> 'f mcp_client option \<Rightarrow>
   ustring list \<times> 'f mcp_client option"
where
  "part_or_error rt label r =
     (case r of
        (Inl e, mcp') \<Rightarrow> ([asc ''Error: '' @ exc_str e], mcp')
      | (Inr result, mcp') \<Rightarrow> ([label @ json_dumps rt False result], mcp'))"

definition response_parts ::
  "'f runtime \<Rightarrow> ustring \<Rightarrow> 'f mcp_client option \<Rightarrow>
   (ustring + ustring list) \<times> 'f mcp_client option"
where
  "response_parts rt query_lower mcp_client =
     (if contains ru_spisok query_lower \<or> contains ru_vse_produkty query_lower \<or>
         contains (asc ''show products'') query_lower then
        map_prod Inr id (part_or_error rt (asc ''Products: '')
          (call_or_default rt mcp_client (asc ''list_products'') (JObj [])
             (JObj [(asc ''products'', JArr [])])))
      else if contains ru_kategoriya query_lower \<or> contains (asc ''category'') query_lower \<or>
              contains ru_elektronika query_lower then
        (let category = ru_Elektronika
         in map_prod Inr id (part_or_error rt (asc ''Products in '' @ category @ asc '': '')
              (call_or_default rt mcp_client (asc ''list_products'')
                 (JObj [(asc ''category'', JStr category)])
                 (JObj [(asc ''products'', JArr [])]))))
      else if contains ru_statistika query_lower \<or> contains (asc ''statistics'') query_lower \<or>
              contains ru_srednyaya_tsena query_lower then
        map_prod Inr id (part_or_error rt (asc ''Statistics: '')
          (call_or_default rt mcp_client (asc ''get_statistics'') (JObj []) (JObj [])))
      else if contains (asc ''product'') query_lower \<or> contains ru_tovar query_lower \<or>
              contains (asc ''id'') query_lower then
        map_prod Inr id (find_product rt mcp_client (py_split query_lower))
      else if contains ru_dobav query_lower \<or> contains (asc ''add product'') query_lower \<or>
              contains ru_novyj query_lower then
        (Inr [asc ''To add a product, please provide: name, price, category, and in_stock status.''],
         mcp_client)
      else if contains percent_sign query_lower \<or> contains ru_skidka query_lower \<or>
              contains (asc ''discount'') query_lower then
        (case calculator rt (asc ''15% of 50000'') of
           Text calc_result \<Rightarrow> (Inr [asc ''Calculation: '' @ calc_result], mcp_client)
         | Propagates b \<Rightarrow> (Inl b, mcp_client))
      else (Inr [asc ''How can I help you with product management?''], mcp_client))"

text \<open>
  \<open>process_user_query(query, mcp_client)\<close>: the response and the client after the call.
\<close>

definition process_user_query ::
  "'f runtime \<Rightarrow> ustring \<Rightarrow> 'f mcp_client option \<Rightarrow> text_result \<times> 'f mcp_client option"
where
  "process_user_query rt query mcp_client =
     (case response_parts rt (str_lower rt query) mcp_client of
        (Inl b, mcp') \<Rightarrow> (Propagates b, mcp')
      | (Inr parts, mcp') \<Rightarrow> (Text (py_join (asc '' '') parts), mcp'))"

section \<open>The product server\<close>

text \<open>
  The products file: absent, present but not loadable (\<open>open\<close> or \<open>json.load\<close> raises),
  or holding a JSON array, which is what \<open>save_products\<close> writes.
\<close>

datatype 'f disk_file = Missing | Unreadable py_exc | Stored "'f json list"

text \<open>
  The module's state.  Python lists are objects: \<open>heap\<close> maps a reference to the list's
  elements, the global \<open>products_data\<close> holds a reference, and \<open>next_ref\<close> is the next
  unused one.  At import \<open>products_data\<close> is bound to a new empty list.
\<close>

record 'f server =
  heap :: "nat \<Rightarrow> 'f json list"
  products_data :: nat
  next_ref :: nat
  products_file :: "'f disk_file"

definition server_start :: "'f disk_file \<Rightarrow> 'f server" where
  "server_start f = \<lparr>heap = (\<lambda>r. []), products_data = 0, next_ref = 1, products_file = f\<rparr>"

text \<open>Sequencing of steps that may raise, and a list comprehension over such a step.\<close>

definition and_then :: "py_exc + 'a \<Rightarrow> ('a \<Rightarrow> py_exc + 'b) \<Rightarrow> py_exc + 'b" where
  "and_then r f = (case r of Inl e \<Rightarrow> Inl e | Inr x \<Rightarrow> f x)"

fun for_each :: "('a \<Rightarrow> py_exc + 'b) \<Rightarrow> 'a list \<Rightarrow> py_exc + 'b list" where
  "for_each f [] = Inr []"
| "for_each f (x # xs) =
     (case f x of
        Inl e \<Rightarrow> Inl e
      | Inr y \<Rightarrow> (case for_each f xs of Inl e \<Rightarrow> Inl e | Inr ys \<Rightarrow> Inr (y # ys)))"

text \<open>\<open>p.get(key, default)\<close>, the truth value of a decoded value, and \<open>v == n\<close> for an integer.\<close>

fun py_get :: "'f runtime \<Rightarrow> 'f json \<Rightarrow> ustring \<Rightarrow> 'f json \<Rightarrow> py_exc + 'f json" where
  "py_get rt (JObj kvs) k dflt = Inr (case map_of kvs k of None \<Rightarrow> dflt | Some v \<Rightarrow> v)"
| "py_get rt v k dflt = Inl (Raised AttributeError (lib_text rt (GetAttr (asc ''get'')) v))"

fun truthy :: "'f runtime \<Rightarrow> 'f json \<Rightarrow> bool" where
  "truthy rt JNull = False"
| "truthy rt (JBool b) = b"
| "truthy rt (JInt i) = (i \<noteq> 0)"
| "truthy rt (JFloat x) = float_nonzero rt x"
| "truthy rt (JStr s) = (s \<noteq> [])"
| "truthy rt (JArr xs) = (xs \<noteq> [])"
| "truthy rt (JObj kvs) = (kvs \<noteq> [])"


text \<open>
  \<open>load_products\<close> returns the list the global is bound to.  When that list is empty and
  the file exists, the global is first rebound to the list \<open>json.load\<close> builds.
\<close>

definition load_products :: "'f server \<Rightarrow> (py_exc + nat) \<times> 'f server" where
  "load_products s =
     (if heap s (products_data s) = [] \<and> products_file s \<noteq> Missing then
        (case products_file s of
           Missing \<Rightarrow> (Inr (products_data s), s)
         | Unreadable e \<Rightarrow> (Inl e, s)
         | Stored xs \<Rightarrow>
             (let r = next_ref s
              in (Inr r, s\<lparr>heap := (heap s)(r := xs), products_data := r, next_ref := r + 1\<rparr>)))
      else (Inr (products_data s), s))"

text \<open>\<open>save_products\<close> overwrites the file; the write is taken to succeed.\<close>

definition save_products :: "'f server \<Rightarrow> 'f server" where
  "save_products s = s\<lparr>products_file := Stored (heap s (products_data s))\<rparr>"

text \<open>
  \<open>max\<close> and \<open>min\<close> keep the first element and replace it by each later one that
  compares greater, respectively less; \<open>sum\<close> adds the elements to 0 from the left.
\<close>

fun py_best ::
  "('f json \<Rightarrow> 'f json \<Rightarrow> py_exc + bool) \<Rightarrow> 'f json \<Rightarrow> 'f json list \<Rightarrow> py_exc + 'f json"
where
  "py_best better cur [] = Inr cur"
| "py_best better cur (x # xs) =
     (case better x cur of
        Inl e \<Rightarrow> Inl e
      | Inr b \<Rightarrow> py_best better (if b then x else cur) xs)"

definition py_max :: "'f runtime \<Rightarrow> 'f json list \<Rightarrow> py_exc + 'f json" where
  "py_max rt xs =
     (case xs of
        [] \<Rightarrow> Inl (Raised ValueError (lib_text rt EmptySequence (JArr [])))
      | y # ys \<Rightarrow> py_best (py_gt rt) y ys)"

definition py_min :: "'f runtime \<Rightarrow> 'f json list \<Rightarrow> py_exc + 'f json" where
  "py_min rt xs =
     (case xs of
        [] \<Rightarrow> Inl (Raised ValueError (lib_text rt EmptySequence (JArr [])))
      | y # ys \<Rightarrow> py_best (py_lt rt) y ys)"

fun py_sum :: "'f runtime \<Rightarrow> 'f json \<Rightarrow> 'f json list \<Rightarrow> py_exc + 'f json" where
  "py_sum rt acc [] = Inr acc"
| "py_sum rt acc (x # xs) =
     (case py_add rt acc x of
        Inl e \<Rightarrow> Inl e
      | Inr acc' \<Rightarrow> py_sum rt acc' xs)"

text \<open>
  \<open>max(p["id"] for p in products_data)\<close>: the generator is read one product at a time,
  each id being compared before the next product is looked at.
\<close>

fun max_id :: "'f runtime \<Rightarrow> 'f json \<Rightarrow> 'f json list \<Rightarrow> py_exc + 'f json" where
  "max_id rt cur [] = Inr cur"
| "max_id rt cur (p # ps) =
     (case py_getitem rt p (asc ''id'') of
        Inl e \<Rightarrow> Inl e
      | Inr v \<Rightarrow>
          (case py_gt rt v cur of
             Inl e \<Rightarrow> Inl e
           | Inr b \<Rightarrow> max_id rt (if b then v else cur) ps))"

definition get_next_product_id :: "'f runtime \<Rightarrow> 'f server \<Rightarrow> py_exc + 'f json" where
  "get_next_product_id rt s =
     (case heap s (products_data s) of
        [] \<Rightarrow> Inr (JInt 1)
      | p # ps \<Rightarrow>
          and_then (py_getitem rt p (asc ''id''))
            (\<lambda>first. and_then (max_id rt first ps) (\<lambda>m. py_add rt m (JInt 1))))"





text \<open>
  \<open>add_product\<close>.  \<open>products\<close> is the reference \<open>load_products\<close> returned; \<open>append\<close>,
  \<open>clear\<close> and \<open>extend\<close> update the lists behind the references they are called on, in
  the order of the source, and \<open>extend\<close> reads its argument after \<open>clear\<close> has run.
\<close>

definition add_product ::
  "'f runtime \<Rightarrow> 'f server \<Rightarrow> ustring \<Rightarrow> 'f \<Rightarrow> ustring \<Rightarrow> bool \<Rightarrow> (py_exc + 'f json) \<times> 'f server"
where
  "add_product rt s name price category in_stock =
     (case load_products s of
        (Inl e, s') \<Rightarrow> (Inl e, s')
      | (Inr products, s0) \<Rightarrow>
          (case get_next_product_id rt s0 of
             Inl e \<Rightarrow> (Inl e, s0)
           | Inr new_id \<Rightarrow>
               (let new_product =
                      JObj [(asc ''id'', new_id),
                            (asc ''name'', JStr name),
                            (asc ''price'', JFloat price),
                            (asc ''category'', JStr category),
                            (asc ''in_stock'', JBool in_stock)];
                    s1 = s0\<lparr>heap := (heap s0)(products := heap s0 products @ [new_product])\<rparr>;
                    s2 = s1\<lparr>heap := (heap s1)(products_data s1 := [])\<rparr>;
                    s3 = s2\<lparr>heap := (heap s2)(products_data s2 :=
                                 heap s2 (products_data s2) @ heap s2 products)\<rparr>;
                    s4 = save_products s3
                in (Inr (JObj [(asc ''success'', JBool True), (asc ''product'', new_product)]),
                    s4))))"

text \<open>
  An element enters a \<open>set\<close> only if it can be hashed: lists and dicts cannot.  The
  generator feeding \<open>set\<close> is read one product at a time.
\<close>

fun hashable :: "'f json \<Rightarrow> bool" where
  "hashable (JArr xs) = False"
| "hashable (JObj kvs) = False"
| "hashable v = True"

definition hashed :: "'f runtime \<Rightarrow> py_exc + 'f json \<Rightarrow> py_exc + 'f json" where
  "hashed rt r =
     and_then r (\<lambda>v. if hashable v then Inr v else Inl (Raised TypeError (lib_text rt Hash v)))"

definition statistics_of :: "'f runtime \<Rightarrow> 'f json list \<Rightarrow> py_exc + 'f json" where
  "statistics_of rt products =
     and_then (for_each (\<lambda>p. py_getitem rt p (asc ''price'')) products) (\<lambda>prices.
     and_then (for_each (hashed rt \<circ> (\<lambda>p. py_get rt p (asc ''category'') (JStr (asc ''Unknown''))))
                 products) (\<lambda>cs.
     let categories = set_to_list rt cs in
     and_then (for_each (\<lambda>p. py_get rt p (asc ''in_stock'') (JBool False)) products) (\<lambda>flags.
     let in_stock_count = int (length (filter (truthy rt) flags)) in
     and_then (py_sum rt (JInt 0) prices) (\<lambda>total.
     and_then (py_truediv rt total (JInt (int (length prices)))) (\<lambda>average.
     and_then (py_min rt prices) (\<lambda>lo.
     and_then (py_max rt prices) (\<lambda>hi.
       Inr (JObj [(asc ''total_products'', JInt (int (length products))),
                  (asc ''average_price'', average),
                  (asc ''in_stock_count'', JInt in_stock_count),
                  (asc ''out_of_stock_count'', JInt (int (length products) - in_stock_count)),
                  (asc ''categories'', JArr categories),
                  (asc ''price_range'',
                   JObj [(asc ''min'', lo), (asc ''max'', hi)])]))))))))"

definition get_statistics :: "'f runtime \<Rightarrow> 'f server \<Rightarrow> (py_exc + 'f json) \<times> 'f server" where
  "get_statistics rt s =
     (case load_products s of
        (Inl e, s') \<Rightarrow> (Inl e, s')
      | (Inr products, s') \<Rightarrow>
          (if heap s' products = [] then
             (Inr (JObj [(asc ''total_products'', JInt 0),
                         (asc ''average_price'', JInt 0),
                         (asc ''in_stock_count'', JInt 0),
                         (asc ''categories'', JArr []),
                         (asc ''price_range'',
                          JObj [(asc ''min'', JInt 0), (asc ''max'', JInt 0)])]),
              s')
           else (statistics_of rt (heap s' products), s')))"

text \<open>
  What the next operation sees as the catalog: the list \<open>load_products\<close> hands it.
\<close>

definition catalog :: "'f server \<Rightarrow> py_exc + 'f json list" where
  "catalog s =
     (case load_products s of
        (Inl e, s') \<Rightarrow> Inl e
      | (Inr products, s') \<Rightarrow> Inr (heap s' products))"

section \<open>A runtime for the examples\<close>

text \<open>
  The examples below need an interpreter.  \<open>rt0\<close> is a small one: case mapping for Basic
  Latin and Cyrillic, \<open>int\<close> and \<open>float\<close> on ASCII decimal numerals with an optional
  sign, exact rational arithmetic in the place of doubles, and an \<open>eval\<close> that knows
  decimal literals and the call \<open>exit()\<close>.  On the inputs of the examples it does what
  CPython 3 does; the theorems that quantify over \<open>rt\<close> do not depend on it.
\<close>

definition lower0 :: "nat \<Rightarrow> nat" where
  "lower0 c =
     (if 65 \<le> c \<and> c \<le> 90 then c + 32
      else if 1040 \<le> c \<and> c \<le> 1071 then c + 32
      else if 1024 \<le> c \<and> c \<le> 1039 then c + 80
      else c)"

fun digits_value :: "nat \<Rightarrow> ustring \<Rightarrow> nat option" where
  "digits_value acc [] = Some acc"
| "digits_value acc (c # cs) =
     (if 48 \<le> c \<and> c \<le> 57 then digits_value (10 * acc + (c - 48)) cs else None)"

definition int0 :: "ustring \<Rightarrow> int option" where
  "int0 s =
     (case s of
        [] \<Rightarrow> None
      | c # cs \<Rightarrow>
          (if c = 45 then (if cs = [] then None else map_option (\<lambda>n. - int n) (digits_value 0 cs))
           else if c = 43 then (if cs = [] then None else map_option int (digits_value 0 cs))
           else map_option int (digits_value 0 s)))"

definition float_str0 :: "rat \<Rightarrow> ustring" where
  "float_str0 r =
     (case quotient_of r of
        (a, b) \<Rightarrow> (if b = 1 then show_int a @ asc ''.0''
                   else show_int a @ asc ''/'' @ show_int b))"

definition eval0 :: "ustring \<Rightarrow> eval_result" where
  "eval0 s =
     (if s = asc ''exit()'' then EvalExits (asc ''SystemExit'')
      else if s \<noteq> [] \<and> (s = [48] \<or> hd s \<noteq> 48) \<and> digits_value 0 s \<noteq> None then
        EvalValue (show_int (int (the (digits_value 0 s))))
      else EvalRaises (Raised (OtherClass (asc ''SyntaxError'')) (asc ''invalid syntax'')))"

fun type_name :: "'f json \<Rightarrow> ustring" where
  "type_name JNull = asc ''NoneType''"
| "type_name (JBool b) = asc ''bool''"
| "type_name (JInt i) = asc ''int''"
| "type_name (JFloat x) = asc ''float''"
| "type_name (JStr s) = asc ''str''"
| "type_name (JArr xs) = asc ''list''"
| "type_name (JObj kvs) = asc ''dict''"

fun repr0 :: "rat json \<Rightarrow> ustring" where
  "repr0 JNull = asc ''None''"
| "repr0 (JBool b) = (if b then asc ''True'' else asc ''False'')"
| "repr0 (JInt i) = show_int i"
| "repr0 (JFloat x) = float_str0 x"
| "repr0 (JStr s) = [39] @ s @ [39]"
| "repr0 (JArr xs) = asc ''['' @ py_join (asc '', '') (map repr0 xs) @ asc '']''"
| "repr0 (JObj kvs) =
     asc ''{'' @
     py_join (asc '', '') (map (\<lambda>kv. [39] @ fst kv @ [39] @ asc '': '' @ repr0 (snd kv)) kvs) @
     asc ''}''"

definition value_str0 :: "rat json \<Rightarrow> ustring" where
  "value_str0 v = (case v of JStr s \<Rightarrow> s | _ \<Rightarrow> repr0 v)"

fun lib_text0 :: "lib_op \<Rightarrow> rat json \<Rightarrow> ustring" where
  "lib_text0 Contains v = asc ''argument of type '' @ [39] @ type_name v @ [39] @ asc '' is not iterable''"
| "lib_text0 Subscript (JArr xs) = asc ''list indices must be integers or slices, not str''"
| "lib_text0 Subscript (JStr s) = asc ''string indices must be integers''"
| "lib_text0 Subscript v = [39] @ type_name v @ [39] @ asc '' object is not subscriptable''"
| "lib_text0 MissingKey v = repr0 v"
| "lib_text0 (GetAttr a) v =
     [39] @ type_name v @ [39] @ asc '' object has no attribute '' @ [39] @ a @ [39]"
| "lib_text0 ToFloat v = asc ''could not convert string to float: '' @ repr0 v"
| "lib_text0 LastOf v = asc ''list index out of range''"
| "lib_text0 Arith v = asc ''unsupported operand type(s)''"
| "lib_text0 Hash v = asc ''unhashable type: '' @ [39] @ type_name v @ [39]"
| "lib_text0 EmptySequence v = asc ''arg is an empty sequence''"

fun number0 :: "rat json \<Rightarrow> rat option" where
  "number0 (JInt i) = Some (of_int i)"
| "number0 (JFloat x) = Some x"
| "number0 (JBool b) = Some (if b then 1 else 0)"
| "number0 v = None"

fun whole0 :: "rat json \<Rightarrow> int option" where
  "whole0 (JInt i) = Some i"
| "whole0 (JBool b) = Some (if b then 1 else 0)"
| "whole0 v = None"

definition arith_error0 :: "rat json list \<Rightarrow> py_exc" where
  "arith_error0 xs = Raised TypeError (lib_text0 Arith (JArr xs))"

definition add0 :: "rat json \<Rightarrow> rat json \<Rightarrow> py_exc + rat json" where
  "add0 v w =
     (case (whole0 v, whole0 w) of
        (Some i, Some j) \<Rightarrow> Inr (JInt (i + j))
      | _ \<Rightarrow>
          (case (number0 v, number0 w) of
             (Some x, Some y) \<Rightarrow> Inr (JFloat (x + y))
           | _ \<Rightarrow> Inl (arith_error0 [v, w])))"

definition truediv0 :: "rat json \<Rightarrow> rat json \<Rightarrow> py_exc + rat json" where
  "truediv0 v w =
     (case (number0 v, number0 w) of
        (Some x, Some y) \<Rightarrow>
          (if y = 0 then
             Inl (Raised (OtherClass (asc ''ZeroDivisionError'')) (asc ''division by zero''))
           else Inr (JFloat (x / y)))
      | _ \<Rightarrow> Inl (arith_error0 [v, w]))"

fun str_less :: "ustring \<Rightarrow> ustring \<Rightarrow> bool" where
  "str_less [] [] = False"
| "str_less [] (y # ys) = True"
| "str_less (x # xs) [] = False"
| "str_less (x # xs) (y # ys) = (x < y \<or> (x = y \<and> str_less xs ys))"

text \<open>\<open>v < w\<close> on two numbers or two strings; other pairs raise.\<close>

definition lt0 :: "rat json \<Rightarrow> rat json \<Rightarrow> py_exc + bool" where
  "lt0 v w =
     (case (number0 v, number0 w) of
        (Some x, Some y) \<Rightarrow> Inr (x < y)
      | _ \<Rightarrow>
          (case (v, w) of
             (JStr a, JStr b) \<Rightarrow> Inr (str_less a b)
           | _ \<Rightarrow> Inl (arith_error0 [v, w])))"

text \<open>The order in which a \<open>set\<close> is listed is the interpreter's; \<open>rt0\<close> keeps first occurrences.\<close>

definition rt0 :: "rat runtime" where
  "rt0 = \<lparr>str_lower = map lower0,
          str_to_int = int0,
          str_to_float = (\<lambda>s. map_option of_int (int0 s)),
          float_str = float_str0,
          float_json = float_str0,
          float_of_int = of_int,
          float_div = (\<lambda>x y. x / y),
          float_mul = (\<lambda>x y. x * y),
          float_eq_int = (\<lambda>x i. x = of_int i),
          float_nonzero = (\<lambda>x. x \<noteq> 0),
          py_eval = eval0,
          value_str = value_str0,
          lib_text = lib_text0,
          py_add = add0,
          py_truediv = truediv0,
          py_gt = (\<lambda>v w. lt0 w v),
          py_lt = lt0,
          set_to_list = remdups\<rparr>"

text \<open>A response that carries a result under an id no request of a new client has.\<close>

definition stale_response :: "rat json" where
  "stale_response =
     JObj [(asc ''jsonrpc'', JStr (asc ''2.0'')),
           (asc ''id'', JInt 7),
           (asc ''result'', JStr (asc ''ok''))]"

text \<open>A product as the products file holds it.\<close>

definition laptop :: "rat json" where
  "laptop =
     JObj [(asc ''id'', JInt 1),
           (asc ''name'', JStr (asc ''Laptop'')),
           (asc ''price'', JInt 50000),
           (asc ''category'', JStr (asc ''Electronics'')),
           (asc ''in_stock'', JBool True)]"

section \<open>Request ids\<close>

lemma asc_inject: "asc s = asc t \<longleftrightarrow> s = t"
  unfolding asc_def by (simp add: inj_map_eq_map inj_on_def)

lemma ident_make_request: "ident (make_request i t a) = Some i"
  by (simp add: make_request_def asc_inject)

lemma call_tool_request_id:
  "request_id (snd (call_tool rt c t a)) = request_id c + 1"
  by (simp add: call_tool_def Let_def split: wire.splits)

lemma call_tool_written:
  "written (snd (call_tool rt c t a)) = written c @ [make_request (request_id c + 1) t a]"
  by (simp add: call_tool_def Let_def split: wire.splits)

lemma call_all_written:
  "map ident (written (call_all rt c cs)) =
   map ident (written c) @ map (\<lambda>k. Some (request_id c + 1 + int k)) [0..<length cs]"
proof (induction cs arbitrary: c)
  case Nil
  show ?case by simp
next
  case (Cons x xs)
  obtain t a where x: "x = (t, a)" by (cases x)
  have shift: "map (\<lambda>k. Some (request_id c + 1 + int k)) [0..<Suc (length xs)] =
        Some (request_id c + 1) # map (\<lambda>k. Some (request_id c + 1 + 1 + int k)) [0..<length xs]"
    by (simp add: upt_conv_Cons map_Suc_upt [symmetric] del: upt_Suc)
  show ?case
    using Cons.IH [of "snd (call_tool rt c t a)"]
    by (simp add: x call_tool_written call_tool_request_id ident_make_request shift
          del: upt_Suc)
qed

text \<open>
  C3.  A client starts with counter 0; its n-th call hands a request with id n to the
  pipe, whatever the earlier calls returned or raised: the ids written by any sequence
  of calls are 1, 2, ..., n in this order, so the first is 1, each is greater than all
  before it and none is used twice.
\<close>

theorem request_ids_count_up:
  "map ident (written (call_all rt (MCPClient p) cs)) =
   map (\<lambda>k. Some (int k + 1)) [0..<length cs]"
  by (simp add: call_all_written MCPClient_def add.commute)

section \<open>Responses and their ids\<close>

lemma call_tool_parsed:
  "peer c = Parsed r # rest \<Longrightarrow>
   call_tool rt c t a =
     (read_response rt r,
      c\<lparr>request_id := request_id c + 1,
        written := written c @ [make_request (request_id c + 1) t a],
        peer := rest\<rparr>)"
  by (simp add: call_tool_def Let_def)

lemma read_response_result:
  "map_of kvs (asc ''result'') = Some v \<Longrightarrow> read_response rt (JObj kvs) = Inr v"
  by (simp add: read_response_def)

text \<open>
  C1, as amended.  When the line read for a call decodes to an object with a \<open>result\<close>
  member, \<open>call_tool\<close> returns that member.  Nothing is asked of the object's \<open>id\<close>: the
  client does not compare it with the id of the request, so the value is returned also
  when the two differ.
\<close>

theorem result_returned_whatever_id:
  assumes "peer c = Parsed (JObj kvs) # rest"
    and "map_of kvs (asc ''result'') = Some v"
  shows "fst (call_tool rt c t a) = Inr v"
  using assms by (simp add: call_tool_parsed read_response_result)

theorem result_returned_whatever_id_witness:
  "fst (call_tool rt0 (MCPClient [Parsed stale_response]) (asc ''get_statistics'') (JObj []))
     = Inr (JStr (asc ''ok''))"
  using result_returned_whatever_id [of "MCPClient [Parsed stale_response]"
      "[(asc ''jsonrpc'', JStr (asc ''2.0'')), (asc ''id'', JInt 7),
        (asc ''result'', JStr (asc ''ok''))]"
      "[]" "JStr (asc ''ok'')" rt0 "asc ''get_statistics''" "JObj []"]
  by (simp add: MCPClient_def stale_response_def asc_inject)

text \<open>
  C1 as stated fails: the first call of a new client writes a request with id 1, reads a
  response with id 7 and returns its result.
\<close>

theorem mismatched_id_counterexample:
  "fst (call_tool rt0 (MCPClient [Parsed stale_response]) (asc ''get_statistics'') (JObj []))
     = Inr (JStr (asc ''ok'')) \<and>
   map ident (written (snd (call_tool rt0 (MCPClient [Parsed stale_response])
                              (asc ''get_statistics'') (JObj [])))) = [Some 1] \<and>
   ident stale_response = Some 7"
  by (simp add: call_tool_def Let_def MCPClient_def stale_response_def read_response_def
        ident_make_request asc_inject)

section \<open>Empty and undecodable lines\<close>

text \<open>
  C2, as amended.  On an empty or missing line \<open>call_tool\<close> returns \<open>None\<close> and raises
  nothing; on a line \<open>json.loads\<close> rejects, the decoder's \<open>JSONDecodeError\<close> reaches the
  caller as it is.  In both cases the call has written its one request and nothing more,
  and in the second it has read one line: nothing is retried.
\<close>

theorem empty_and_undecodable_lines:
  "(peer c = [] \<or> peer c = NoLine # rest \<longrightarrow>
      fst (call_tool rt c t a) = Inr JNull \<and>
      written (snd (call_tool rt c t a)) = written c @ [make_request (request_id c + 1) t a]) \<and>
   (peer d = Garbage m # rest' \<longrightarrow>
      fst (call_tool rt d t a) = Inl (Raised JSONDecodeError m) \<and>
      written (snd (call_tool rt d t a)) = written d @ [make_request (request_id d + 1) t a] \<and>
      peer (snd (call_tool rt d t a)) = rest')"
  by (auto simp add: call_tool_def Let_def)

theorem empty_and_undecodable_lines_witness:
  "fst (call_tool rt0 (MCPClient [NoLine]) (asc ''add_product'') (JObj [])) = Inr JNull \<and>
   written (snd (call_tool rt0 (MCPClient [NoLine]) (asc ''add_product'') (JObj [])))
     = [make_request 1 (asc ''add_product'') (JObj [])] \<and>
   fst (call_tool rt0 (MCPClient [Garbage (asc ''Expecting value'')])
          (asc ''add_product'') (JObj []))
     = Inl (Raised JSONDecodeError (asc ''Expecting value'')) \<and>
   written (snd (call_tool rt0 (MCPClient [Garbage (asc ''Expecting value'')])
                   (asc ''add_product'') (JObj [])))
     = [make_request 1 (asc ''add_product'') (JObj [])] \<and>
   peer (snd (call_tool rt0 (MCPClient [Garbage (asc ''Expecting value'')])
                (asc ''add_product'') (JObj []))) = []"
  using empty_and_undecodable_lines [of "MCPClient [NoLine]" "[]" rt0 "asc ''add_product''"
      "JObj []" "MCPClient [Garbage (asc ''Expecting value'')]" "asc ''Expecting value''" "[]"]
  by (simp add: MCPClient_def)

text \<open>
  C2 as stated fails: a call that finds no line returns \<open>None\<close>, a value and not an error.
\<close>

theorem empty_line_counterexample:
  "fst (call_tool rt0 (MCPClient [NoLine]) (asc ''add_product'') (JObj [])) = Inr JNull"
  by (simp add: call_tool_def Let_def MCPClient_def)

section \<open>Routing: the list-all rule\<close>

lemma MockLLM_generate_snoc:
  "MockLLM_generate rt (ms @ [q]) = generate_content rt (str_lower rt q)"
  by (cases ms) (simp_all add: MockLLM_generate_def)

lemma call_or_default_Some:
  "call_or_default rt (Some c) t a d =
     (fst (call_tool rt c t a), Some (snd (call_tool rt c t a)))"
  by (simp add: call_or_default_def split: prod.splits)

lemma call_or_default_None: "call_or_default rt None t a d = (Inr d, None)"
  by (simp add: call_or_default_def)

lemma list_all_content:
  assumes "contains ru_spisok (str_lower rt q) \<or> contains ru_vse_produkty (str_lower rt q) \<or>
           contains (asc ''show products'') (str_lower rt q)"
  shows "MockLLM_generate rt (ms @ [q]) =
           Inr (tool_use rt (asc ''I'' @ [39] @ asc ''ll get all products for you.'')
                  (JObj [(asc ''tool'', JStr (asc ''list_products'')), (asc ''args'', JObj [])]))"
  unfolding MockLLM_generate_snoc generate_content_def using assms by (rule if_P)

lemma list_all_parts:
  assumes "contains ru_spisok (str_lower rt q) \<or> contains ru_vse_produkty (str_lower rt q) \<or>
           contains (asc ''show products'') (str_lower rt q)"
  shows "response_parts rt (str_lower rt q) mc =
      map_prod Inr id (part_or_error rt (asc ''Products: '')
          (call_or_default rt mc (asc ''list_products'') (JObj [])
             (JObj [(asc ''products'', JArr [])])))"
  unfolding response_parts_def using assms by (rule if_P)

text \<open>
  C4.  When the query in lower case contains one of the three list-all phrases, whatever
  surrounds it, the first rule is taken.  \<open>MockLLM\<close> announces the tool \<open>list_products\<close>
  with the empty argument mapping.  \<open>process_user_query\<close> with a client makes exactly the
  call \<open>call_tool("list_products", {})\<close> and renders its result or its error; without a
  client it makes no call and renders the default of the same branch.
\<close>

theorem list_all_phrase_selects_list_products:
  assumes "contains ru_spisok (str_lower rt q) \<or> contains ru_vse_produkty (str_lower rt q) \<or>
           contains (asc ''show products'') (str_lower rt q)"
  shows "MockLLM_generate rt (ms @ [q]) =
           Inr (tool_use rt (asc ''I'' @ [39] @ asc ''ll get all products for you.'')
                  (JObj [(asc ''tool'', JStr (asc ''list_products'')), (asc ''args'', JObj [])])) \<and>
         snd (process_user_query rt q (Some c)) =
           Some (snd (call_tool rt c (asc ''list_products'') (JObj []))) \<and>
         fst (process_user_query rt q (Some c)) =
           (case fst (call_tool rt c (asc ''list_products'') (JObj [])) of
              Inl e \<Rightarrow> Text (asc ''Error: '' @ exc_str e)
            | Inr result \<Rightarrow> Text (asc ''Products: '' @ json_dumps rt False result)) \<and>
         process_user_query rt q None =
           (Text (asc ''Products: '' @ json_dumps rt False (JObj [(asc ''products'', JArr [])])),
            None)"
proof -
  let ?r = "fst (call_tool rt c (asc ''list_products'') (JObj []))"
  have a: "process_user_query rt q (Some c) =
      (case ?r of Inl e \<Rightarrow> Text (asc ''Error: '' @ exc_str e)
            | Inr result \<Rightarrow> Text (asc ''Products: '' @ json_dumps rt False result),
       Some (snd (call_tool rt c (asc ''list_products'') (JObj []))))"
    unfolding process_user_query_def list_all_parts [OF assms] call_or_default_Some
      part_or_error_def
    by (cases ?r) simp_all
  have b: "process_user_query rt q None =
           (Text (asc ''Products: '' @ json_dumps rt False (JObj [(asc ''products'', JArr [])])),
            None)"
    unfolding process_user_query_def list_all_parts [OF assms] call_or_default_None
      part_or_error_def
    by simp
  show ?thesis
    unfolding a b using list_all_content [OF assms] by simp
qed

lemmas phrase_defs = ru_spisok_def ru_vse_produkty_def ru_kategoriya_def ru_elektronika_def
  ru_Elektronika_def ru_statistika_def ru_srednyaya_tsena_def ru_tovar_def ru_najti_def
  ru_nomer_def ru_dobav_def ru_novyj_def ru_poschitaj_def ru_skidka_def percent_sign_def

lemma lower_show_products:
  "str_lower rt0 (asc ''Please SHOW PRODUCTS now'') = asc ''please show products now''"
  by (simp add: rt0_def asc_def lower0_def)

theorem list_all_phrase_selects_list_products_witness:
  "MockLLM_generate rt0 ([] @ [asc ''Please SHOW PRODUCTS now'']) =
     Inr (tool_use rt0 (asc ''I'' @ [39] @ asc ''ll get all products for you.'')
            (JObj [(asc ''tool'', JStr (asc ''list_products'')), (asc ''args'', JObj [])])) \<and>
   snd (process_user_query rt0 (asc ''Please SHOW PRODUCTS now'') (Some (MCPClient []))) =
     Some (snd (call_tool rt0 (MCPClient []) (asc ''list_products'') (JObj []))) \<and>
   process_user_query rt0 (asc ''Please SHOW PRODUCTS now'') None =
     (Text (asc ''Products: '' @ json_dumps rt0 False (JObj [(asc ''products'', JArr [])])), None)"
proof -
  have h: "contains (asc ''show products'') (str_lower rt0 (asc ''Please SHOW PRODUCTS now''))"
    unfolding lower_show_products by (simp add: asc_def)
  show ?thesis
    using list_all_phrase_selects_list_products
      [of rt0 "asc ''Please SHOW PRODUCTS now''" "[]" "MCPClient []"] h
    by blast
qed

section \<open>Routing: the category rule\<close>

lemma category_content:
  assumes n1: "\<not> (contains ru_spisok (str_lower rt q) \<or> contains ru_vse_produkty (str_lower rt q) \<or>
           contains (asc ''show products'') (str_lower rt q))"
    and h2: "contains ru_kategoriya (str_lower rt q) \<or> contains (asc ''category'') (str_lower rt q) \<or>
           contains ru_elektronika (str_lower rt q)"
  shows "MockLLM_generate rt (ms @ [q]) =
           Inr (tool_use rt (asc ''Getting products in '' @ ru_Elektronika @ asc '' category.'')
                  (JObj [(asc ''tool'', JStr (asc ''list_products'')),
                         (asc ''args'', JObj [(asc ''category'', JStr ru_Elektronika)])]))"
  unfolding MockLLM_generate_snoc generate_content_def
  by (subst if_not_P [OF n1], subst if_P [OF h2]) (simp only: Let_def if_cancel)

lemma category_parts:
  assumes n1: "\<not> (contains ru_spisok (str_lower rt q) \<or> contains ru_vse_produkty (str_lower rt q) \<or>
           contains (asc ''show products'') (str_lower rt q))"
    and h2: "contains ru_kategoriya (str_lower rt q) \<or> contains (asc ''category'') (str_lower rt q) \<or>
           contains ru_elektronika (str_lower rt q)"
  shows "response_parts rt (str_lower rt q) mc =
      map_prod Inr id (part_or_error rt (asc ''Products in '' @ ru_Elektronika @ asc '': '')
          (call_or_default rt mc (asc ''list_products'')
             (JObj [(asc ''category'', JStr ru_Elektronika)])
             (JObj [(asc ''products'', JArr [])])))"
  unfolding response_parts_def
  by (subst if_not_P [OF n1], subst if_P [OF h2]) (simp only: Let_def)

text \<open>
  C5.  When the list-all rule does not match and the query in lower case contains a
  category phrase, the category passed on is the one literal \<open>ru_Elektronika\<close>, in
  \<open>MockLLM\<close> and in \<open>process_user_query\<close> alike, whichever of the phrases occurred and
  whatever else the query says.
\<close>

theorem category_phrase_selects_fixed_category:
  assumes "\<not> (contains ru_spisok (str_lower rt q) \<or> contains ru_vse_produkty (str_lower rt q) \<or>
           contains (asc ''show products'') (str_lower rt q))"
    and "contains ru_kategoriya (str_lower rt q) \<or> contains (asc ''category'') (str_lower rt q) \<or>
           contains ru_elektronika (str_lower rt q)"
  shows "MockLLM_generate rt (ms @ [q]) =
           Inr (tool_use rt (asc ''Getting products in '' @ ru_Elektronika @ asc '' category.'')
                  (JObj [(asc ''tool'', JStr (asc ''list_products'')),
                         (asc ''args'', JObj [(asc ''category'', JStr ru_Elektronika)])])) \<and>
         snd (process_user_query rt q (Some c)) =
           Some (snd (call_tool rt c (asc ''list_products'')
                        (JObj [(asc ''category'', JStr ru_Elektronika)]))) \<and>
         fst (process_user_query rt q (Some c)) =
           (case fst (call_tool rt c (asc ''list_products'')
                        (JObj [(asc ''category'', JStr ru_Elektronika)])) of
              Inl e \<Rightarrow> Text (asc ''Error: '' @ exc_str e)
            | Inr result \<Rightarrow>
                Text (asc ''Products in '' @ ru_Elektronika @ asc '': '' @
                      json_dumps rt False result)) \<and>
         process_user_query rt q None =
           (Text (asc ''Products in '' @ ru_Elektronika @ asc '': '' @
                  json_dumps rt False (JObj [(asc ''products'', JArr [])])),
            None)"
proof -
  let ?args = "JObj [(asc ''category'', JStr ru_Elektronika)]"
  let ?r = "fst (call_tool rt c (asc ''list_products'') ?args)"
  have a: "process_user_query rt q (Some c) =
      (case ?r of Inl e \<Rightarrow> Text (asc ''Error: '' @ exc_str e)
            | Inr result \<Rightarrow> Text (asc ''Products in '' @ ru_Elektronika @ asc '': '' @
                      json_dumps rt False result),
       Some (snd (call_tool rt c (asc ''list_products'') ?args)))"
    unfolding process_user_query_def category_parts [OF assms] call_or_default_Some
      part_or_error_def
    by (cases ?r) simp_all
  have b: "process_user_query rt q None =
           (Text (asc ''Products in '' @ ru_Elektronika @ asc '': '' @
                  json_dumps rt False (JObj [(asc ''products'', JArr [])])),
            None)"
    unfolding process_user_query_def category_parts [OF assms] call_or_default_None
      part_or_error_def
    by simp
  show ?thesis
    unfolding a b using category_content [OF assms] by simp
qed

lemma lower_category:
  "str_lower rt0 (asc ''Category Books'') = asc ''category books''"
  by (simp add: rt0_def asc_def lower0_def)

theorem category_phrase_selects_fixed_category_witness:
  "MockLLM_generate rt0 ([] @ [asc ''Category Books'']) =
     Inr (tool_use rt0 (asc ''Getting products in '' @ ru_Elektronika @ asc '' category.'')
            (JObj [(asc ''tool'', JStr (asc ''list_products'')),
                   (asc ''args'', JObj [(asc ''category'', JStr ru_Elektronika)])])) \<and>
   snd (process_user_query rt0 (asc ''Category Books'') (Some (MCPClient []))) =
     Some (snd (call_tool rt0 (MCPClient []) (asc ''list_products'')
                  (JObj [(asc ''category'', JStr ru_Elektronika)]))) \<and>
   process_user_query rt0 (asc ''Category Books'') None =
     (Text (asc ''Products in '' @ ru_Elektronika @ asc '': '' @
            json_dumps rt0 False (JObj [(asc ''products'', JArr [])])),
      None)"
proof -
  have n1: "\<not> (contains ru_spisok (str_lower rt0 (asc ''Category Books'')) \<or>
            contains ru_vse_produkty (str_lower rt0 (asc ''Category Books'')) \<or>
            contains (asc ''show products'') (str_lower rt0 (asc ''Category Books'')))"
    unfolding lower_category by (simp add: asc_def phrase_defs)
  have h2: "contains (asc ''category'') (str_lower rt0 (asc ''Category Books''))"
    unfolding lower_category by (simp add: asc_def)
  show ?thesis
    using category_phrase_selects_fixed_category
      [of rt0 "asc ''Category Books''" "[]" "MCPClient []"] n1 h2
    by blast
qed

section \<open>Routing: the product rule\<close>

lemmas eval_defs = process_user_query_def response_parts_def asc_def rt0_def lower0_def
  phrase_defs calculator_def percent_branch_def split_on_def py_strip_def py_split_def
  is_space_def int0_def float_str0_def show_int_def MockLLM_generate_def generate_content_def
  last_word_def

lemma find_product_nothing:
  assumes "\<forall>i. Suc i < length ws \<and> ws ! i = asc ''id'' \<longrightarrow> str_to_int rt (ws ! Suc i) = None"
  shows "find_product rt mc ws = ([], mc)"
  using assms
proof (induction rt mc ws rule: find_product.induct)
  case (1 rt mc w n rest)
  have tail: "\<forall>i. Suc i < length (n # rest) \<and> (n # rest) ! i = asc ''id'' \<longrightarrow>
                str_to_int rt ((n # rest) ! Suc i) = None"
  proof (intro allI impI)
    fix i assume "Suc i < length (n # rest) \<and> (n # rest) ! i = asc ''id''"
    then have "Suc (Suc i) < length (w # n # rest) \<and> (w # n # rest) ! Suc i = asc ''id''"
      by simp
    then have "str_to_int rt ((w # n # rest) ! Suc (Suc i)) = None"
      using "1.prems" by blast
    then show "str_to_int rt ((n # rest) ! Suc i) = None" by simp
  qed
  show ?case
  proof (cases "w = asc ''id''")
    case True
    have "str_to_int rt n = None" using "1.prems" True by force
    then show ?thesis using True "1.IH"(1) tail by simp
  next
    case False
    then show ?thesis using "1.IH"(3) tail by simp
  qed
qed simp_all

text \<open>
  Whenever the product rule of \<open>process_user_query\<close> is taken and no word \<open>id\<close> is
  followed by a word \<open>int\<close> accepts, no part is appended and the response is empty.
\<close>

lemma product_rule_without_id:
  assumes n1: "\<not> (contains ru_spisok (str_lower rt q) \<or> contains ru_vse_produkty (str_lower rt q) \<or>
           contains (asc ''show products'') (str_lower rt q))"
    and n2: "\<not> (contains ru_kategoriya (str_lower rt q) \<or> contains (asc ''category'') (str_lower rt q) \<or>
           contains ru_elektronika (str_lower rt q))"
    and n3: "\<not> (contains ru_statistika (str_lower rt q) \<or> contains (asc ''statistics'') (str_lower rt q) \<or>
           contains ru_srednyaya_tsena (str_lower rt q))"
    and h4: "contains (asc ''product'') (str_lower rt q) \<or> contains ru_tovar (str_lower rt q) \<or>
           contains (asc ''id'') (str_lower rt q)"
    and none: "\<forall>i. Suc i < length (py_split (str_lower rt q)) \<and>
                 py_split (str_lower rt q) ! i = asc ''id'' \<longrightarrow>
                 str_to_int rt (py_split (str_lower rt q) ! Suc i) = None"
  shows "process_user_query rt q mc = (Text [], mc)"
  unfolding process_user_query_def response_parts_def
  by (subst if_not_P [OF n1], subst if_not_P [OF n2], subst if_not_P [OF n3],
      subst if_P [OF h4])
     (simp add: find_product_nothing [OF none])

text \<open>
  C6, at the query \<open>product id abc\<close>: the rule matches and \<open>abc\<close> is no integer.
  \<open>process_user_query\<close> makes no call and returns the empty string, where the claim has a
  fixed, non-empty message; \<open>MockLLM\<close> on the same query has that message.
\<close>

theorem no_id_empty_response:
  "process_user_query rt0 (asc ''product id abc'') None = (Text [], None) \<and>
   MockLLM_generate rt0 [asc ''product id abc''] = Inr (asc ''Please specify a product ID.'')"
  by (simp add: eval_defs)

section \<open>Routing: the calculation rule\<close>

lemma constant_expression_text:
  "\<exists>r. calculator rt (asc ''15% of 50000'') = Text r"
proof -
  have c: "contains percent_sign (asc ''15% of 50000'')"
    by (simp add: asc_def percent_sign_def)
  have s: "split_on (asc '' of '') (asc ''15% of 50000'') = [asc ''15%'', asc ''50000'']"
    by (simp add: asc_def split_on_def)
  have "percent_branch rt (asc ''15% of 50000'') \<noteq> None"
    unfolding percent_branch_def s using c
    by (simp add: Let_def split: option.splits)
  then show ?thesis by (auto simp add: calculator_def)
qed

text \<open>
  Whenever the calculation rule of \<open>process_user_query\<close> is taken, the calculator is
  applied to the literal \<open>15% of 50000\<close> and the query contributes nothing.
\<close>

lemma discount_rule_ignores_query:
  assumes n1: "\<not> (contains ru_spisok (str_lower rt q) \<or> contains ru_vse_produkty (str_lower rt q) \<or>
           contains (asc ''show products'') (str_lower rt q))"
    and n2: "\<not> (contains ru_kategoriya (str_lower rt q) \<or> contains (asc ''category'') (str_lower rt q) \<or>
           contains ru_elektronika (str_lower rt q))"
    and n3: "\<not> (contains ru_statistika (str_lower rt q) \<or> contains (asc ''statistics'') (str_lower rt q) \<or>
           contains ru_srednyaya_tsena (str_lower rt q))"
    and n4: "\<not> (contains (asc ''product'') (str_lower rt q) \<or> contains ru_tovar (str_lower rt q) \<or>
           contains (asc ''id'') (str_lower rt q))"
    and n5: "\<not> (contains ru_dobav (str_lower rt q) \<or> contains (asc ''add product'') (str_lower rt q) \<or>
           contains ru_novyj (str_lower rt q))"
    and h6: "contains percent_sign (str_lower rt q) \<or> contains ru_skidka (str_lower rt q) \<or>
           contains (asc ''discount'') (str_lower rt q)"
  shows "\<exists>r. calculator rt (asc ''15% of 50000'') = Text r \<and>
             process_user_query rt q mc = (Text (asc ''Calculation: '' @ r), mc)"
proof -
  obtain r where r: "calculator rt (asc ''15% of 50000'') = Text r"
    using constant_expression_text by blast
  have "process_user_query rt q mc = (Text (asc ''Calculation: '' @ r), mc)"
    unfolding process_user_query_def response_parts_def
    by (subst if_not_P [OF n1], subst if_not_P [OF n2], subst if_not_P [OF n3],
        subst if_not_P [OF n4], subst if_not_P [OF n5], subst if_P [OF h6])
       (simp add: r)
  with r show ?thesis by blast
qed

text \<open>
  C7, at the query \<open>10% of 200\<close>: \<open>process_user_query\<close> answers with the calculation of
  15% of 50000, where the claim has the operands 10 and 200 of the query; \<open>MockLLM\<close> on
  the same query builds the expression \<open>10% of 200\<close>.
\<close>

theorem fixed_expression:
  "process_user_query rt0 (asc ''10% of 200'') None =
     (Text (asc ''Calculation: 15.0% of 50000.0 = 7500.0''), None) \<and>
   MockLLM_generate rt0 [asc ''10% of 200''] =
     Inr (tool_use rt0 (asc ''Calculating discount.'')
            (JObj [(asc ''tool'', JStr (asc ''calculator'')),
                   (asc ''args'', JObj [(asc ''expression'', JStr (asc ''10% of 200''))])]))"
  by (simp add: eval_defs)

section \<open>The calculator's handler\<close>

text \<open>
  What the handler does achieve: a call returns text unless \<open>eval\<close> raises outside
  \<open>Exception\<close>, and an exception of \<open>eval\<close> inside \<open>Exception\<close> becomes a text that begins
  with \<open>Error\<close>.
\<close>

lemma calculator_text_unless_exit:
  assumes "\<forall>b. py_eval rt e \<noteq> EvalExits b"
  shows "\<exists>s. calculator rt e = Text s"
  using assms by (cases "py_eval rt e") (auto simp add: calculator_def split: option.splits)

lemma calculator_error_text:
  assumes "percent_branch rt e = None" and "py_eval rt e = EvalRaises x"
  shows "calculator rt e = Text (asc ''Error calculating: '' @ exc_str x)"
  using assms by (simp add: calculator_def)

text \<open>
  C8, where it fails.  When the expression reaches \<open>eval\<close> and \<open>eval\<close> raises an exception
  that does not derive from \<open>Exception\<close>, as \<open>SystemExit\<close> from \<open>exit()\<close>, the handler
  \<open>except Exception\<close> does not catch it and the call raises instead of returning text.
\<close>

theorem calculator_lets_exit_pass:
  assumes "percent_branch rt e = None" and "py_eval rt e = EvalExits b"
  shows "calculator rt e = Propagates b"
  using assms by (simp add: calculator_def)

theorem calculator_lets_exit_pass_witness:
  "calculator rt0 (asc ''exit()'') = Propagates (asc ''SystemExit'')"
proof -
  have a: "percent_branch rt0 (asc ''exit()'') = None"
    by (simp add: percent_branch_def asc_def percent_sign_def)
  have b: "py_eval rt0 (asc ''exit()'') = EvalExits (asc ''SystemExit'')"
    by (simp add: rt0_def eval0_def)
  show ?thesis using calculator_lets_exit_pass [OF a b] .
qed

section \<open>Statistics of an empty catalog\<close>

text \<open>The branch for a catalog with products has all six members.\<close>

lemma one_product_statistics:
  "fst (get_statistics rt0 (server_start (Stored [laptop]))) =
     Inr (JObj [(asc ''total_products'', JInt 1),
                (asc ''average_price'', JFloat 50000),
                (asc ''in_stock_count'', JInt 1),
                (asc ''out_of_stock_count'', JInt 0),
                (asc ''categories'', JArr [JStr (asc ''Electronics'')]),
                (asc ''price_range'', JObj [(asc ''min'', JInt 50000), (asc ''max'', JInt 50000)])])"
  by (simp add: get_statistics_def load_products_def server_start_def Let_def laptop_def
        statistics_of_def and_then_def hashed_def py_min_def py_max_def asc_inject rt0_def
        add0_def truediv0_def lt0_def)

text \<open>
  C9, where it fails.  On an empty catalog \<open>get_statistics\<close> returns, with zeros and an
  empty list, but the object it returns has five members and \<open>out_of_stock_count\<close> is not
  among them.
\<close>

theorem empty_catalog_statistics:
  assumes "catalog s = Inr []"
  shows "fst (get_statistics rt s) =
           Inr (JObj [(asc ''total_products'', JInt 0),
                      (asc ''average_price'', JInt 0),
                      (asc ''in_stock_count'', JInt 0),
                      (asc ''categories'', JArr []),
                      (asc ''price_range'',
                       JObj [(asc ''min'', JInt 0), (asc ''max'', JInt 0)])]) \<and>
         py_in rt (asc ''out_of_stock_count'')
           (JObj [(asc ''total_products'', JInt 0),
                  (asc ''average_price'', JInt 0),
                  (asc ''in_stock_count'', JInt 0),
                  (asc ''categories'', JArr []),
                  (asc ''price_range'',
                   JObj [(asc ''min'', JInt 0), (asc ''max'', JInt 0)])]) = Inr False"
proof -
  obtain p s' where l: "load_products s = (Inr p, s')" and h: "heap s' p = []"
    using assms by (cases "load_products s") (auto simp add: catalog_def split: sum.splits)
  show ?thesis
    by (simp add: get_statistics_def l h asc_inject)
qed

theorem empty_catalog_statistics_witness:
  "catalog (server_start Missing :: rat server) = Inr [] \<and>
   catalog (server_start (Stored []) :: rat server) = Inr [] \<and>
   fst (get_statistics rt0 (server_start Missing)) =
     Inr (JObj [(asc ''total_products'', JInt 0),
                (asc ''average_price'', JInt 0),
                (asc ''in_stock_count'', JInt 0),
                (asc ''categories'', JArr []),
                (asc ''price_range'', JObj [(asc ''min'', JInt 0), (asc ''max'', JInt 0)])]) \<and>
   fst (get_statistics rt0 (server_start (Stored []))) =
     Inr (JObj [(asc ''total_products'', JInt 0),
                (asc ''average_price'', JInt 0),
                (asc ''in_stock_count'', JInt 0),
                (asc ''categories'', JArr []),
                (asc ''price_range'', JObj [(asc ''min'', JInt 0), (asc ''max'', JInt 0)])])"
proof -
  have a: "catalog (server_start Missing :: rat server) = Inr []"
    by (simp add: catalog_def load_products_def server_start_def)
  have b: "catalog (server_start (Stored []) :: rat server) = Inr []"
    by (simp add: catalog_def load_products_def server_start_def Let_def)
  show ?thesis
    using a b empty_catalog_statistics [OF a, of rt0] empty_catalog_statistics [OF b, of rt0]
    by simp
qed

section \<open>The read-only tools\<close>












text \<open>The same effect, from the caller's side: whenever \<open>add_product\<close> returns a value.\<close>

lemma add_product_empties_catalog:
  assumes "fst (add_product rt s name price category in_stock) = Inr r"
  shows "products_file (snd (add_product rt s name price category in_stock)) = Stored [] \<and>
         catalog (snd (add_product rt s name price category in_stock)) = Inr []"
proof -
  obtain p s0 where l: "load_products s = (Inr p, s0)"
    using assms by (cases "load_products s") (auto simp add: add_product_def Let_def split: sum.splits)
  have p: "p = products_data s0"
    using l by (auto simp add: load_products_def Let_def split: if_splits disk_file.splits)
  obtain i where i: "get_next_product_id rt s0 = Inr i"
    using assms l by (cases "get_next_product_id rt s0") (simp_all add: add_product_def Let_def)
  have a: "snd (add_product rt s name price category in_stock) =
             s0\<lparr>heap := (heap s0)(products_data s0 := []), products_file := Stored []\<rparr>"
    by (simp add: add_product_def l i p Let_def save_products_def)
  show ?thesis
    unfolding a by (simp add: catalog_def load_products_def Let_def)
qed

end
